theory Spec2Isabelle
  imports Main "HOL-Library.Monad_Syntax"
begin

section \<open>Data model\<close>

text \<open>
  The interpreter of the untyped lambda calculus consists of a lexer and a backtracking
  recursive-descent parser (\<^verbatim>\<open>parse.py\<close>), the syntax tree (\<^verbatim>\<open>ast.py\<close>) and a
  substitution-based evaluator (\<^verbatim>\<open>eval.py\<close>). Python's unbounded integers that only
  count upwards from zero (positions, lines, columns, collision counters) are natural
  numbers here. A Python exception that unwinds through a function is a value of
  \<open>pyexc\<close>; a function that may raise returns \<open>pyexc + 'a\<close> with \<open>Inl\<close> for the
  exception.
\<close>

datatype pyexc = ValueError string | IndexError | SyntaxError string | AttributeError

datatype TokenType = IDENTIFIER | DOT | EQUAL | R_PAREN | L_PAREN | LET | WHERE

text \<open>The \<^verbatim>\<open>.name\<close> attribute of an enum member.\<close>

fun type_name :: "TokenType \<Rightarrow> string" where
  "type_name IDENTIFIER = ''IDENTIFIER''"
| "type_name DOT = ''DOT''"
| "type_name EQUAL = ''EQUAL''"
| "type_name R_PAREN = ''R_PAREN''"
| "type_name L_PAREN = ''L_PAREN''"
| "type_name LET = ''LET''"
| "type_name WHERE = ''WHERE''"

text \<open>Class \<^verbatim>\<open>Token\<close>: fields \<^verbatim>\<open>type, value, file, line, col\<close>.\<close>

record Token =
  ttype :: TokenType
  tvalue :: string
  tfile :: string
  tline :: nat
  tcol :: nat

text \<open>Class \<^verbatim>\<open>UntypedError\<close>: fields \<^verbatim>\<open>message, file, line, col\<close>.\<close>

record UntypedError =
  message :: string
  efile :: string
  eline :: nat
  ecol :: nat

text \<open>
  Class \<^verbatim>\<open>ASTNode\<close> holds the source position \<^verbatim>\<open>file, line, col\<close> that every node
  inherits. \<^verbatim>\<open>Identifier\<close> extends it with \<^verbatim>\<open>name\<close>. \<^verbatim>\<open>Expression\<close> is the union
  \<^verbatim>\<open>Identifier | Apply | Lambda | Parentheses\<close>; the constructor \<open>Ident\<close> injects an
  identifier node into it.
\<close>

record ASTNode =
  afile :: string
  aline :: nat
  acol :: nat

record Identifier = ASTNode +
  name :: string

datatype Expression =
    Ident Identifier
  | Lambda ASTNode Identifier Expression
  | Parentheses ASTNode Expression
  | Apply ASTNode Expression Expression

text \<open>The position fields \<^verbatim>\<open>(e.file, e.line, e.col)\<close> of any expression node.\<close>

fun node :: "Expression \<Rightarrow> ASTNode" where
  "node (Ident i) = \<lparr>afile = afile i, aline = aline i, acol = acol i\<rparr>"
| "node (Lambda n p b) = n"
| "node (Parentheses n e) = n"
| "node (Apply n f a) = n"

text \<open>\<^verbatim>\<open>Identifier.__eq__\<close> compares names only; the position is ignored.\<close>

definition ident_eq :: "Identifier \<Rightarrow> Identifier \<Rightarrow> bool" where
  "ident_eq a b \<longleftrightarrow> name a = name b"

text \<open>\<^verbatim>\<open>isinstance(e, Lambda)\<close>.\<close>

fun is_Lambda :: "Expression \<Rightarrow> bool" where
  "is_Lambda (Lambda n p b) = True"
| "is_Lambda e = False"

subsection \<open>Strings\<close>

text \<open>\<^verbatim>\<open>str(n)\<close> for a non-negative integer, as the f-strings format it.\<close>

definition digit :: "nat \<Rightarrow> char" where
  "digit d = ''0123456789'' ! d"

function str_nat :: "nat \<Rightarrow> string" where
  "str_nat n = (if n < 10 then [digit n] else str_nat (n div 10) @ [digit (n mod 10)])"
  by pat_completeness auto
termination
  by (relation "measure id") auto

declare str_nat.simps [simp del]

text \<open>The slice \<^verbatim>\<open>s[a:b]\<close> for non-negative \<open>a\<close> and \<open>b\<close>.\<close>

definition slice :: "'a list \<Rightarrow> nat \<Rightarrow> nat \<Rightarrow> 'a list" where
  "slice s a b = drop a (take b s)"

section \<open>Lexer\<close>

definition ident_start :: string where
  "ident_start = ''abcdefghijklmnopqrstuvwxyzABCDEFGHIJKLMNOPQRSTUVWXYZ_''"

definition ident_chars :: string where
  "ident_chars = ''abcdefghijklmnopqrstuvwxyzABCDEFGHIJKLMNOPQRSTUVWXYZ0123456789_''"

text \<open>
  The inner \<^verbatim>\<open>while\<close> loop of \<^verbatim>\<open>tokenize\<close>: it advances \<^verbatim>\<open>col\<close> and \<^verbatim>\<open>cons\<close>
  together while \<^verbatim>\<open>code[col]\<close> is an identifier character. The source indexes the text
  with the column \<^verbatim>\<open>col\<close>, not with the character count \<^verbatim>\<open>cons\<close>.
\<close>

function scan_ident :: "string \<Rightarrow> nat \<Rightarrow> nat \<Rightarrow> nat \<times> nat" where
  "scan_ident code col cons =
     (if col < length code \<and> code ! col \<in> set ident_chars
      then scan_ident code (col + 1) (cons + 1)
      else (col, cons))"
  by pat_completeness auto
termination
  by (relation "measure (\<lambda>(code, col, cons). length code - col)") auto

declare scan_ident.simps [simp del]

text \<open>
  One iteration of \<^verbatim>\<open>for c in code\<close>, on the loop state
  \<^verbatim>\<open>(tokens, line, col, cons)\<close>. The \<^verbatim>\<open>for\<close> loop hands over every character of
  \<^verbatim>\<open>code\<close> in turn, whatever the body did to \<^verbatim>\<open>cons\<close>.
\<close>

type_synonym lexer_state = "Token list \<times> nat \<times> nat \<times> nat"

definition tokenize_step :: "string \<Rightarrow> string \<Rightarrow> lexer_state \<Rightarrow> char \<Rightarrow> pyexc + lexer_state" where
  "tokenize_step file code st c =
     (case st of (tokens, line, col0, cons0) \<Rightarrow>
      let cons = cons0 + 1; col = col0 + 1 in
      if c = CHR 0x0A then Inr (tokens, line + 1, 0, cons)
      else if c = CHR '' '' then Inr (tokens, line, col, cons)
      else if c = CHR ''.'' then
        Inr (tokens @ [\<lparr>ttype = DOT, tvalue = [c], tfile = file, tline = line, tcol = col\<rparr>],
             line, col, cons)
      else if c = CHR ''='' then
        Inr (tokens @ [\<lparr>ttype = EQUAL, tvalue = [c], tfile = file, tline = line, tcol = col\<rparr>],
             line, col, cons)
      else if c = CHR ''('' then
        Inr (tokens @ [\<lparr>ttype = L_PAREN, tvalue = [c], tfile = file, tline = line, tcol = col\<rparr>],
             line, col, cons)
      else if c = CHR '')'' then
        Inr (tokens @ [\<lparr>ttype = R_PAREN, tvalue = [c], tfile = file, tline = line, tcol = col\<rparr>],
             line, col, cons)
      else if c = CHR ''l'' \<and> slice code cons (cons + 2) = ''et'' then
        Inr (tokens @ [\<lparr>ttype = LET, tvalue = ''let'', tfile = file, tline = line, tcol = col\<rparr>],
             line, col + 2, cons + 2)
      else if c = CHR ''w'' \<and> slice code cons (cons + 4) = ''here'' then
        Inr (tokens @ [\<lparr>ttype = WHERE, tvalue = ''where'', tfile = file, tline = line, tcol = col\<rparr>],
             line, col + 4, cons + 4)
      else if c \<in> set ident_start then
        (let start = cons - 1; sc = col in
         case scan_ident code col cons of (col', cons') \<Rightarrow>
           Inr (tokens @ [\<lparr>ttype = IDENTIFIER, tvalue = slice code start cons',
                           tfile = file, tline = line, tcol = sc\<rparr>],
                line, col', cons'))
      else
        Inl (ValueError (''Unexpected character '' @ [CHR 0x27, c, CHR 0x27] @ '' at '' @ file
               @ '':'' @ str_nat line @ '':'' @ str_nat col)))"

fun tokenize_loop :: "string \<Rightarrow> string \<Rightarrow> lexer_state \<Rightarrow> string \<Rightarrow> pyexc + Token list" where
  "tokenize_loop file code st [] = Inr (fst st)"
| "tokenize_loop file code st (c # cs) =
     (case tokenize_step file code st c of
        Inl x \<Rightarrow> Inl x
      | Inr st' \<Rightarrow> tokenize_loop file code st' cs)"

definition tokenize :: "string \<Rightarrow> string \<Rightarrow> pyexc + Token list" where
  "tokenize file code = tokenize_loop file code ([], 1, 0, 0) code"

section \<open>Parser\<close>

text \<open>
  A parse function returns one of the two \<^verbatim>\<open>Either\<close> values, \<^verbatim>\<open>Ok(value)\<close> or
  \<^verbatim>\<open>Err(UntypedError)\<close>; the third outcome is a Python exception raised while it runs.
\<close>

datatype 'a either = Ok 'a | Err UntypedError | Raise pyexc

text \<open>
  \<^verbatim>\<open>TokenType.expect\<close>. At the end of input the diagnostic takes its position from
  \<^verbatim>\<open>tokens[pos-1]\<close>. The positions handed over are never negative, so \<open>pos\<close> is a natural
  number: for \<open>pos = 0\<close> the index \<^verbatim>\<open>-1\<close> would wrap around to the last token, but
  \<^verbatim>\<open>tokens[0:]\<close> is empty only for the empty list, where every index raises
  \<^verbatim>\<open>IndexError\<close>; for \<open>pos > 0\<close> the index is in range only when it is below the length.
\<close>

definition expect :: "TokenType \<Rightarrow> Token list \<Rightarrow> nat \<Rightarrow> Token either" where
  "expect self tokens pos =
     (if drop pos tokens = [] then
        (if 0 < pos \<and> pos - 1 < length tokens then
           Err \<lparr>message = ''Expected '' @ type_name self @ '' but got EOF'',
                efile = tfile (tokens ! (pos - 1)), eline = tline (tokens ! (pos - 1)),
                ecol = tcol (tokens ! (pos - 1))\<rparr>
         else Raise IndexError)
      else if ttype (tokens ! pos) \<noteq> self then
        Err \<lparr>message = ''Expected '' @ type_name self @ '' but got '' @ type_name (ttype (tokens ! pos)),
             efile = tfile (tokens ! pos), eline = tline (tokens ! pos), ecol = tcol (tokens ! pos)\<rparr>
      else Ok (tokens ! pos))"

text \<open>
  \<^verbatim>\<open>Identifier(token.file, token.line, token.col, token.value)\<close> and the position
  arguments \<^verbatim>\<open>tokens[pos].file, tokens[pos].line, tokens[pos].col\<close> of the other nodes.
\<close>

definition token_ident :: "Token \<Rightarrow> Identifier" where
  "token_ident token = \<lparr>afile = tfile token, aline = tline token, acol = tcol token, name = tvalue token\<rparr>"

definition token_node :: "Token \<Rightarrow> ASTNode" where
  "token_node token = \<lparr>afile = tfile token, aline = tline token, acol = tcol token\<rparr>"

text \<open>
  The six mutually recursive parse functions. \<open>parse_apply_loop\<close> is the
  \<^verbatim>\<open>while True\<close> loop of \<^verbatim>\<open>parse_apply\<close> on its variables \<^verbatim>\<open>func\<close>, \<^verbatim>\<open>next\<close> and
  the flag \<^verbatim>\<open>f\<close>. Building a node reads \<^verbatim>\<open>tokens[pos]\<close>, which raises
  \<^verbatim>\<open>IndexError\<close> out of range. The call stack is unbounded here; Python's recursion
  limit is not modelled.
\<close>

function (domintros) parse_lambda :: "Token list \<Rightarrow> nat \<Rightarrow> (Expression \<times> nat) either"
  and parse_parentheses :: "Token list \<Rightarrow> nat \<Rightarrow> (Expression \<times> nat) either"
  and parse_apply :: "Token list \<Rightarrow> nat \<Rightarrow> (Expression \<times> nat) either"
  and parse_apply_loop :: "Token list \<Rightarrow> nat \<Rightarrow> Expression \<Rightarrow> nat \<Rightarrow> bool \<Rightarrow> (Expression \<times> nat) either"
  and parse_primal_expr :: "Token list \<Rightarrow> nat \<Rightarrow> (Expression \<times> nat) either"
  and parse_expr :: "Token list \<Rightarrow> nat \<Rightarrow> (Expression \<times> nat) either"
where
  "parse_lambda tokens pos =
     (case expect IDENTIFIER tokens pos of
        Raise x \<Rightarrow> Raise x
      | Err e \<Rightarrow> Err e
      | Ok token \<Rightarrow>
          (let param = token_ident token in
           case expect DOT tokens (pos + 1) of
             Raise x \<Rightarrow> Raise x
           | Err e \<Rightarrow> Err e
           | Ok dot \<Rightarrow>
               (case parse_expr tokens (pos + 2) of
                  Raise x \<Rightarrow> Raise x
                | Err e \<Rightarrow> Err e
                | Ok (expr, next) \<Rightarrow>
                    if pos < length tokens
                    then Ok (Lambda (token_node (tokens ! pos)) param expr, next)
                    else Raise IndexError)))"
| "parse_parentheses tokens pos =
     (case expect L_PAREN tokens pos of
        Raise x \<Rightarrow> Raise x
      | Err e \<Rightarrow> Err e
      | Ok lp \<Rightarrow>
          (case parse_expr tokens (pos + 1) of
             Raise x \<Rightarrow> Raise x
           | Err e \<Rightarrow> Err e
           | Ok (expr, next) \<Rightarrow>
               (case expect R_PAREN tokens next of
                  Raise x \<Rightarrow> Raise x
                | Err e \<Rightarrow> Err e
                | Ok rp \<Rightarrow>
                    if pos < length tokens
                    then Ok (Parentheses (token_node (tokens ! pos)) expr, next + 1)
                    else Raise IndexError)))"
| "parse_apply tokens pos =
     (case parse_primal_expr tokens pos of
        Raise x \<Rightarrow> Raise x
      | Err e \<Rightarrow> Err e
      | Ok (func, next) \<Rightarrow> parse_apply_loop tokens pos func next True)"
| "parse_apply_loop tokens pos func next f =
     (case parse_primal_expr tokens next of
        Raise x \<Rightarrow> Raise x
      | Err e \<Rightarrow> if f then Err e else Ok (func, next)
      | Ok (applicant, next') \<Rightarrow>
          if pos < length tokens
          then parse_apply_loop tokens pos (Apply (token_node (tokens ! pos)) func applicant) next' False
          else Raise IndexError)"
| "parse_primal_expr tokens pos =
     (case parse_lambda tokens pos of
        Raise x \<Rightarrow> Raise x
      | Ok (expr, next) \<Rightarrow> Ok (expr, next)
      | Err e \<Rightarrow>
          (case parse_parentheses tokens pos of
             Raise x \<Rightarrow> Raise x
           | Ok (expr, next) \<Rightarrow> Ok (expr, next)
           | Err e \<Rightarrow>
               (case expect IDENTIFIER tokens pos of
                  Raise x \<Rightarrow> Raise x
                | Err e \<Rightarrow> Err e
                | Ok token \<Rightarrow> Ok (Ident (token_ident token), pos + 1))))"
| "parse_expr tokens pos =
     (case parse_apply tokens pos of
        Raise x \<Rightarrow> Raise x
      | Ok (expr, next) \<Rightarrow> Ok (expr, next)
      | Err e \<Rightarrow>
          (case parse_primal_expr tokens pos of
             Raise x \<Rightarrow> Raise x
           | Ok (expr, next) \<Rightarrow> Ok (expr, next)
           | Err e \<Rightarrow> Err e))"
  by pat_completeness auto


abbreviation "parse_dom \<equiv>
  parse_lambda_parse_parentheses_parse_apply_parse_apply_loop_parse_primal_expr_parse_expr_dom"

lemmas parse_pinduct =
  parse_lambda_parse_parentheses_parse_apply_parse_apply_loop_parse_primal_expr_parse_expr.pinduct

text \<open>
  Termination: a successful parse consumes at least one token and stays within the token
  list. This is proved on the domain of the functions first, since the loop of
  \<^verbatim>\<open>parse_apply\<close> continues from the position its callee returns.
\<close>

lemma expect_Ok_less: "expect t tokens pos = Ok tok \<Longrightarrow> pos < length tokens"
  by (auto simp: expect_def split: if_splits)

lemma parse_progress_dom:
  "parse_dom (Inl (Inl (tokens, pos)))
     \<Longrightarrow> (\<forall>e n. parse_lambda tokens pos = Ok (e, n) \<longrightarrow> pos < n \<and> n \<le> length tokens)"
  "parse_dom (Inl (Inr (Inl (tokens, pos))))
     \<Longrightarrow> (\<forall>e n. parse_parentheses tokens pos = Ok (e, n) \<longrightarrow> pos < n \<and> n \<le> length tokens)"
  "parse_dom (Inl (Inr (Inr (tokens, pos))))
     \<Longrightarrow> (\<forall>e n. parse_apply tokens pos = Ok (e, n) \<longrightarrow> pos < n \<and> n \<le> length tokens)"
  "parse_dom (Inr (Inl (tokens, pos, func, next, f)))
     \<Longrightarrow> (\<forall>e n. parse_apply_loop tokens pos func next f = Ok (e, n) \<longrightarrow> next \<le> n \<and> (next \<le> length tokens \<longrightarrow> n \<le> length tokens))"
  "parse_dom (Inr (Inr (Inl (tokens, pos))))
     \<Longrightarrow> (\<forall>e n. parse_primal_expr tokens pos = Ok (e, n) \<longrightarrow> pos < n \<and> n \<le> length tokens)"
  "parse_dom (Inr (Inr (Inr (tokens, pos))))
     \<Longrightarrow> (\<forall>e n. parse_expr tokens pos = Ok (e, n) \<longrightarrow> pos < n \<and> n \<le> length tokens)"
proof (induct rule: parse_pinduct)
  case (1 tokens pos)
  show ?case
  proof (intro allI impI)
    fix e n
    assume r: "parse_lambda tokens pos = Ok (e, n)"
    with 1(1) obtain tok dot e' where
      h: "expect IDENTIFIER tokens pos = Ok tok" "expect DOT tokens (pos + 1) = Ok dot"
         "parse_expr tokens (pos + 2) = Ok (e', n)"
      by (auto simp: parse_lambda.psimps Let_def split: either.splits if_splits)
    from 1(2) [OF h(1) refl h(2)] h(3) show "pos < n \<and> n \<le> length tokens"
      by auto
  qed
next
  case (2 tokens pos)
  show ?case
  proof (intro allI impI)
    fix e n
    assume r: "parse_parentheses tokens pos = Ok (e, n)"
    with 2(1) obtain tok rp e' m where
      h: "expect L_PAREN tokens pos = Ok tok" "parse_expr tokens (pos + 1) = Ok (e', m)"
         "expect R_PAREN tokens m = Ok rp" "n = m + 1"
      by (auto simp: parse_parentheses.psimps split: either.splits if_splits)
    from 2(2) [OF h(1)] h(2) have "pos + 1 < m" by auto
    moreover from h(3) have "m < length tokens" by (rule expect_Ok_less)
    ultimately show "pos < n \<and> n \<le> length tokens" using h(4) by simp
  qed
next
  case (3 tokens pos)
  show ?case
  proof (intro allI impI)
    fix e n
    assume r: "parse_apply tokens pos = Ok (e, n)"
    with 3(1) obtain func m where
      h: "parse_primal_expr tokens pos = Ok (func, m)"
         "parse_apply_loop tokens pos func m True = Ok (e, n)"
      by (auto simp: parse_apply.psimps split: either.splits)
    from 3(2) h(1) have "pos < m \<and> m \<le> length tokens" by auto
    moreover from 3(3) [OF h(1) refl] h(2) have "m \<le> n \<and> (m \<le> length tokens \<longrightarrow> n \<le> length tokens)"
      by auto
    ultimately show "pos < n \<and> n \<le> length tokens" by simp
  qed
next
  case (4 tokens pos func "next" f)
  show ?case
  proof (intro allI impI)
    fix e n
    assume r: "parse_apply_loop tokens pos func next f = Ok (e, n)"
    show "next \<le> n \<and> (next \<le> length tokens \<longrightarrow> n \<le> length tokens)"
    proof (cases "parse_primal_expr tokens next")
      case (Ok p)
      obtain applicant m where p: "p = (applicant, m)" by (cases p)
      from r 4(1) Ok p have lt: "pos < length tokens"
        and l: "parse_apply_loop tokens pos (Apply (token_node (tokens ! pos)) func applicant) m False = Ok (e, n)"
        by (auto simp: parse_apply_loop.psimps split: if_splits)
      from 4(2) Ok p have "next < m \<and> m \<le> length tokens" by auto
      moreover from 4(3) [OF Ok p [symmetric] lt] l
      have "m \<le> n \<and> (m \<le> length tokens \<longrightarrow> n \<le> length tokens)" by auto
      ultimately show ?thesis by simp
    next
      case (Err d)
      with r 4(1) show ?thesis
        by (auto simp: parse_apply_loop.psimps split: if_splits)
    next
      case (Raise x)
      with r 4(1) show ?thesis
        by (auto simp: parse_apply_loop.psimps)
    qed
  qed
next
  case (5 tokens pos)
  show ?case
  proof (intro allI impI)
    fix e n
    assume r: "parse_primal_expr tokens pos = Ok (e, n)"
    show "pos < n \<and> n \<le> length tokens"
    proof (cases "parse_lambda tokens pos")
      case (Ok p)
      with r 5(1) 5(2) show ?thesis
        by (auto simp: parse_primal_expr.psimps)
    next
      case (Err d)
      note l = this
      show ?thesis
      proof (cases "parse_parentheses tokens pos")
        case (Ok p)
        with r 5(1) 5(3) [OF l] l show ?thesis
          by (auto simp: parse_primal_expr.psimps)
      next
        case (Err d')
        with r 5(1) l show ?thesis
          by (auto simp: parse_primal_expr.psimps split: either.splits dest!: expect_Ok_less)
      next
        case (Raise x)
        with r 5(1) l show ?thesis
          by (auto simp: parse_primal_expr.psimps)
      qed
    next
      case (Raise x)
      with r 5(1) show ?thesis
        by (auto simp: parse_primal_expr.psimps)
    qed
  qed
next
  case (6 tokens pos)
  show ?case
  proof (intro allI impI)
    fix e n
    assume r: "parse_expr tokens pos = Ok (e, n)"
    show "pos < n \<and> n \<le> length tokens"
    proof (cases "parse_apply tokens pos")
      case (Ok p)
      with r 6(1) 6(2) show ?thesis
        by (auto simp: parse_expr.psimps)
    next
      case (Err d)
      with r 6(1) 6(3) [OF Err] show ?thesis
        by (auto simp: parse_expr.psimps split: either.splits)
    next
      case (Raise x)
      with r 6(1) show ?thesis
        by (auto simp: parse_expr.psimps)
    qed
  qed
qed

lemma parse_primal_expr_progress_dom:
  "parse_dom (Inr (Inr (Inl (tokens, pos))))
     \<Longrightarrow> parse_primal_expr tokens pos = Ok (e, n) \<Longrightarrow> pos < n \<and> n \<le> length tokens"
  using parse_progress_dom(5) by blast

termination parse_lambda
proof (relation "measure (\<lambda>x. case x of
        Inl (Inl (tokens, pos)) \<Rightarrow> 5 * (length tokens - pos) + 1
      | Inl (Inr (Inl (tokens, pos))) \<Rightarrow> 5 * (length tokens - pos) + 1
      | Inl (Inr (Inr (tokens, pos))) \<Rightarrow> 5 * (length tokens - pos) + 3
      | Inr (Inl (tokens, pos, func, next, f)) \<Rightarrow> 5 * (length tokens - next) + 3
      | Inr (Inr (Inl (tokens, pos))) \<Rightarrow> 5 * (length tokens - pos) + 2
      | Inr (Inr (Inr (tokens, pos))) \<Rightarrow> 5 * (length tokens - pos) + 4)", goal_cases)
  case 1
  show ?case by simp
next
  case (2 tokens pos tok param dot)
  from 2(3) have "pos + 1 < length tokens" by (rule expect_Ok_less)
  then show ?case by simp
next
  case (3 tokens pos tok)
  from 3(1) have "pos < length tokens" by (rule expect_Ok_less)
  then show ?case by simp
next
  case (4 tokens pos)
  show ?case by simp
next
  case (5 tokens pos p func n)
  from parse_primal_expr_progress_dom [OF 5(3)] 5(1) 5(2) have "pos < n \<and> n \<le> length tokens"
    by metis
  then show ?case by auto
next
  case (6 tokens pos func n f)
  show ?case by simp
next
  case (7 tokens pos func n f p applicant m)
  from parse_primal_expr_progress_dom [OF 7(4)] 7(1) 7(2) have "n < m \<and> m \<le> length tokens"
    by metis
  then show ?case by auto
next
  case (8 tokens pos)
  show ?case by simp
next
  case (9 tokens pos d)
  show ?case by simp
next
  case (10 tokens pos)
  show ?case by simp
next
  case (11 tokens pos d)
  show ?case by simp
qed

text \<open>Every call returns: the functions are total, and the progress facts hold outright.\<close>

lemmas parse_induct =
  parse_lambda_parse_parentheses_parse_apply_parse_apply_loop_parse_primal_expr_parse_expr.induct

lemmas parse_domintros =
  parse_lambda_parse_parentheses_parse_apply_parse_apply_loop_parse_primal_expr_parse_expr.domintros

lemma parse_total:
  "parse_dom (Inl (Inl (tokens, pos)))"
  "parse_dom (Inl (Inr (Inl (tokens, pos))))"
  "parse_dom (Inl (Inr (Inr (tokens, pos))))"
  "parse_dom (Inr (Inl (tokens, pos, func, next, f)))"
  "parse_dom (Inr (Inr (Inl (tokens, pos))))"
  "parse_dom (Inr (Inr (Inr (tokens, pos))))"
proof (induct tokens pos and tokens pos and tokens pos and tokens pos func "next" f and tokens pos and tokens pos rule: parse_induct)
  case (1 tokens pos)
  then show ?case
    by (auto intro: parse_domintros)
next
  case (2 tokens pos)
  then show ?case
    by (auto intro: parse_domintros)
next
  case (3 tokens pos)
  show ?case
  proof (rule parse_domintros(3))
    show "parse_dom (Inr (Inr (Inl (tokens, pos))))" by (rule 3(1))
  next
    fix a b
    assume "parse_primal_expr tokens pos = Ok (a, b)"
    note h = this
    show "parse_dom (Inr (Inl (tokens, pos, a, b, True)))"
      by (rule 3(2) [OF h refl])
  qed
next
  case (4 tokens pos func "next" f)
  show ?case
  proof (rule parse_domintros(4))
    show "parse_dom (Inr (Inr (Inl (tokens, next))))" by (rule 4(1))
  next
    fix a b
    assume "parse_primal_expr tokens next = Ok (a, b)" "pos < length tokens"
    note h = this
    show "parse_dom (Inr (Inl (tokens, pos, Apply (token_node (tokens ! pos)) func a, b, False)))"
      by (rule 4(2) [OF h(1) refl h(2)])
  qed
next
  case (5 tokens pos)
  then show ?case
    by (auto intro: parse_domintros)
next
  case (6 tokens pos)
  then show ?case
    by (auto intro: parse_domintros)
qed

lemmas parse_progress =
  parse_progress_dom(1) [OF parse_total(1), rule_format]
  parse_progress_dom(2) [OF parse_total(2), rule_format]
  parse_progress_dom(3) [OF parse_total(3), rule_format]
  parse_progress_dom(5) [OF parse_total(5), rule_format]
  parse_progress_dom(6) [OF parse_total(6), rule_format]

lemma parse_apply_loop_progress:
  assumes "parse_apply_loop tokens pos func next f = Ok (e, n)" and "next \<le> length tokens"
  shows "next \<le> n \<and> n \<le> length tokens"
proof -
  from parse_progress_dom(4) [OF parse_total(4), rule_format, OF assms(1)] assms(2)
  show ?thesis by simp
qed

declare parse_lambda.simps [simp del] parse_parentheses.simps [simp del]
  parse_apply.simps [simp del] parse_apply_loop.simps [simp del]
  parse_primal_expr.simps [simp del] parse_expr.simps [simp del]

text \<open>Class \<^verbatim>\<open>Binding\<close> and \<^verbatim>\<open>parse_binding\<close>.\<close>

datatype Binding = Binding ASTNode Identifier Expression

definition parse_binding :: "Token list \<Rightarrow> nat \<Rightarrow> (Binding \<times> nat) either" where
  "parse_binding tokens pos =
     (case expect LET tokens pos of
        Raise x \<Rightarrow> Raise x
      | Err e \<Rightarrow> Err e
      | Ok kw \<Rightarrow>
          (case expect IDENTIFIER tokens pos of
             Raise x \<Rightarrow> Raise x
           | Err e \<Rightarrow> Err e
           | Ok token \<Rightarrow>
               (let name = token_ident token in
                case expect EQUAL tokens (pos + 1) of
                  Raise x \<Rightarrow> Raise x
                | Err e \<Rightarrow> Err e
                | Ok eq \<Rightarrow>
                    (case parse_expr tokens (pos + 2) of
                       Raise x \<Rightarrow> Raise x
                     | Err e \<Rightarrow> Err e
                     | Ok (expr, next) \<Rightarrow>
                         if pos < length tokens
                         then Ok (Binding (token_node (tokens ! pos)) name expr, next)
                         else Raise IndexError))))"

text \<open>
  The entry point \<^verbatim>\<open>parse\<close>. Both \<^verbatim>\<open>raise SyntaxError\<close> statements format
  \<^verbatim>\<open>"<message> at line <line> column <col> in <file>"\<close>.
\<close>

definition syntax_error :: "string \<Rightarrow> nat \<Rightarrow> nat \<Rightarrow> string \<Rightarrow> pyexc" where
  "syntax_error msg l c f =
     SyntaxError (msg @ '' at line '' @ str_nat l @ '' column '' @ str_nat c @ '' in '' @ f)"

definition parse :: "string \<Rightarrow> string \<Rightarrow> pyexc + Expression" where
  "parse expr file =
     (case tokenize file expr of
        Inl x \<Rightarrow> Inl x
      | Inr tokens \<Rightarrow>
          (case parse_expr tokens 0 of
             Raise x \<Rightarrow> Inl x
           | Err e \<Rightarrow> Inl (syntax_error (message e) (eline e) (ecol e) (efile e))
           | Ok (exp, next) \<Rightarrow>
               if next \<noteq> length tokens then
                 (if next < length tokens then
                    Inl (syntax_error (''Expected EOF but got '' @ type_name (ttype (tokens ! next)))
                           (tline (tokens ! next)) (tcol (tokens ! next)) (tfile (tokens ! next)))
                  else Inl IndexError)
               else Inr exp))"

section \<open>Textual rendering\<close>

text \<open>The \<^verbatim>\<open>__str__\<close> methods of the expression nodes.\<close>

fun str_Expression :: "Expression \<Rightarrow> string" where
  "str_Expression (Ident i) = name i"
| "str_Expression (Lambda n p b) = name p @ ''.'' @ str_Expression b"
| "str_Expression (Parentheses n e) = ''('' @ str_Expression e @ '')''"
| "str_Expression (Apply n f a) =
     (if is_Lambda f then ''('' @ str_Expression f @ '') '' @ str_Expression a
      else str_Expression f @ '' '' @ str_Expression a)"

section \<open>Substitution engine and normalizer\<close>

fun alpha_convert :: "Expression \<Rightarrow> Identifier \<Rightarrow> Identifier \<Rightarrow> Expression" where
  "alpha_convert (Ident ident) old new = (if ident_eq ident old then Ident new else Ident ident)"
| "alpha_convert (Lambda n param body) old new =
     (if ident_eq param old then Lambda n param body
      else Lambda n param (alpha_convert body old new))"
| "alpha_convert (Parentheses n e) old new = Parentheses (node e) (alpha_convert e old new)"
| "alpha_convert (Apply n func applicant) old new =
     Apply n (alpha_convert func old new) (alpha_convert applicant old new)"

text \<open>
  \<^verbatim>\<open>unique_ident\<close>. The dictionary \<^verbatim>\<open>known\<close> is keyed by identifiers, which hash and
  compare by name, so it is a map from names. The \<^verbatim>\<open>Lambda\<close> case updates the
  dictionary and returns without a recursive call, and the other cases hand a copy to
  each recursive call, so no update is ever read back and the map is passed unchanged.
\<close>

fun unique_ident :: "Expression \<Rightarrow> (string \<rightharpoonup> nat) \<Rightarrow> Expression" where
  "unique_ident (Lambda n param body) known =
     (case known (name param) of
        Some k \<Rightarrow>
          (let new = \<lparr>afile = afile param, aline = aline param, acol = acol param,
                       name = name param @ ''$'' @ str_nat (k + 1)\<rparr>
           in Lambda n new (alpha_convert body param new))
      | None \<Rightarrow> Lambda n param body)"
| "unique_ident (Parentheses n e) known = Parentheses (node e) (unique_ident e known)"
| "unique_ident (Apply n func applicant) known =
     Apply n (unique_ident func known) (unique_ident applicant known)"
| "unique_ident (Ident i) known = Ident i"

text \<open>\<^verbatim>\<open>name.split('$')[0]\<close>: the text before the first dollar sign.\<close>

definition ununique_name :: "string \<Rightarrow> string" where
  "ununique_name s = takeWhile (\<lambda>c. c \<noteq> CHR ''$'') s"

definition ununique_param :: "Identifier \<Rightarrow> Identifier" where
  "ununique_param i =
     \<lparr>afile = afile i, aline = aline i, acol = acol i, name = ununique_name (name i)\<rparr>"

fun ununique_ident :: "Expression \<Rightarrow> Expression" where
  "ununique_ident (Ident i) = Ident (ununique_param i)"
| "ununique_ident (Lambda n param body) = Lambda n (ununique_param param) (ununique_ident body)"
| "ununique_ident (Parentheses n e) = Parentheses (node e) (ununique_ident e)"
| "ununique_ident (Apply n func applicant) =
     Apply n (ununique_ident func) (ununique_ident applicant)"

text \<open>
  \<^verbatim>\<open>apply\<close> and its inner \<^verbatim>\<open>_walk\<close>, which substitutes \<^verbatim>\<open>applicant\<close> for
  \<^verbatim>\<open>param\<close>. Reading \<^verbatim>\<open>func.param\<close> of a node that is no \<^verbatim>\<open>Lambda\<close> raises
  \<^verbatim>\<open>AttributeError\<close>.
\<close>

fun apply_walk :: "Identifier \<Rightarrow> Expression \<Rightarrow> Expression \<Rightarrow> Expression" where
  "apply_walk param applicant (Ident ident) =
     (if ident_eq ident param then applicant else Ident ident)"
| "apply_walk param applicant (Lambda n p b) =
     (if ident_eq param p then Lambda n p b else Lambda n p (apply_walk param applicant b))"
| "apply_walk param applicant (Parentheses n e) =
     Parentheses (node e) (apply_walk param applicant e)"
| "apply_walk param applicant (Apply n f a) =
     Apply n (apply_walk param applicant f) (apply_walk param applicant a)"

definition apply_expr :: "Expression \<Rightarrow> Expression \<Rightarrow> pyexc + Expression" where
  "apply_expr func applicant =
     (case unique_ident func Map.empty of
        Lambda n param body \<Rightarrow> Inr (ununique_ident (apply_walk param applicant body))
      | _ \<Rightarrow> Inl AttributeError)"

text \<open>
  \<^verbatim>\<open>eval\<close> need not return: the result \<open>None\<close> stands for a recursion that never
  ends. \<open>Some (Inr e)\<close> is the returned expression.
\<close>

partial_function (option) eval :: "Expression \<Rightarrow> (pyexc + Expression) option" where
  "eval expr =
     (case expr of
        Ident i \<Rightarrow> Some (Inr expr)
      | Lambda n p b \<Rightarrow> Some (Inr expr)
      | Parentheses n e \<Rightarrow> eval e
      | Apply n func applicant \<Rightarrow>
          Option.bind (eval func) (\<lambda>r1.
            case r1 of
              Inl x \<Rightarrow> Some (Inl x)
            | Inr func' \<Rightarrow>
                Option.bind (eval applicant) (\<lambda>r2.
                  case r2 of
                    Inl x \<Rightarrow> Some (Inl x)
                  | Inr applicant' \<Rightarrow>
                      if is_Lambda func' then
                        (case apply_expr func' applicant' of
                           Inl x \<Rightarrow> Some (Inl x)
                         | Inr r \<Rightarrow> eval r)
                      else Some (Inr (Apply n func' applicant')))))"

section \<open>Structural comparison\<close>

text \<open>
  Structural equality of trees ignores source positions, and the re-print property is
  stated up to parenthesization: \<open>shape_of\<close> keeps the names and the nesting of
  identifiers, lambdas and applications and drops positions and \<^verbatim>\<open>Parentheses\<close> nodes.
\<close>

datatype shape = SIdent string | SLambda string shape | SApply shape shape

fun shape_of :: "Expression \<Rightarrow> shape" where
  "shape_of (Ident i) = SIdent (name i)"
| "shape_of (Lambda n p b) = SLambda (name p) (shape_of b)"
| "shape_of (Parentheses n e) = shape_of e"
| "shape_of (Apply n f a) = SApply (shape_of f) (shape_of a)"

section \<open>Lexer properties\<close>

text \<open>
  Claim C2 says that a source text that is a single identifier, such as \<^verbatim>\<open>foo\<close>, gives
  exactly one \<^verbatim>\<open>IDENTIFIER\<close> token holding the whole text. The code scans the whole
  identifier on its first character, but the \<^verbatim>\<open>for\<close> loop then still visits the
  remaining characters: on \<^verbatim>\<open>foo\<close> it returns three tokens, the identifier \<^verbatim>\<open>foo\<close>
  at column 1 and two identifiers with empty text at columns 4 and 5.
\<close>

theorem tokenize_multichar_identifier:
  "tokenize ''<stdin>'' ''foo'' =
     Inr [\<lparr>ttype = IDENTIFIER, tvalue = ''foo'', tfile = ''<stdin>'', tline = 1, tcol = 1\<rparr>,
          \<lparr>ttype = IDENTIFIER, tvalue = [], tfile = ''<stdin>'', tline = 1, tcol = 4\<rparr>,
          \<lparr>ttype = IDENTIFIER, tvalue = [], tfile = ''<stdin>'', tline = 1, tcol = 5\<rparr>]"
  by code_simp

section \<open>Parser properties\<close>

lemma parse_foo:
  "parse ''foo'' ''<stdin>'' =
     Inr (Apply \<lparr>afile = ''<stdin>'', aline = 1, acol = 1\<rparr>
           (Apply \<lparr>afile = ''<stdin>'', aline = 1, acol = 1\<rparr>
             (Ident \<lparr>afile = ''<stdin>'', aline = 1, acol = 1, name = ''foo''\<rparr>)
             (Ident \<lparr>afile = ''<stdin>'', aline = 1, acol = 4, name = []\<rparr>))
           (Ident \<lparr>afile = ''<stdin>'', aline = 1, acol = 5, name = []\<rparr>))"
  by code_simp

lemma parse_foo_reprinted:
  "parse ''foo  '' ''<stdin>'' =
     Inr (Apply \<lparr>afile = ''<stdin>'', aline = 1, acol = 1\<rparr>
           (Apply \<lparr>afile = ''<stdin>'', aline = 1, acol = 1\<rparr>
             (Ident \<lparr>afile = ''<stdin>'', aline = 1, acol = 1, name = ''foo''\<rparr>)
             (Ident \<lparr>afile = ''<stdin>'', aline = 1, acol = 4, name = '' ''\<rparr>))
           (Ident \<lparr>afile = ''<stdin>'', aline = 1, acol = 5, name = '' ''\<rparr>))"
  by code_simp

text \<open>
  Claim C3 says that re-parsing the rendering of a parsed expression gives a structurally
  equal tree. On the input \<^verbatim>\<open>foo\<close> the parser returns the application of \<^verbatim>\<open>foo\<close> to
  two identifiers with empty names (the three tokens of the lexer); its rendering is
  \<^verbatim>\<open>foo\<close> followed by two spaces, and parsing that gives the application of \<^verbatim>\<open>foo\<close>
  to two identifiers named by a single space. The two trees differ in their names.
\<close>

theorem reprint_multichar_identifier:
  "\<exists>e e'. parse ''foo'' ''<stdin>'' = Inr e \<and> str_Expression e = ''foo  '' \<and>
          parse (str_Expression e) ''<stdin>'' = Inr e' \<and>
          shape_of e = SApply (SApply (SIdent ''foo'') (SIdent [])) (SIdent []) \<and>
          shape_of e' = SApply (SApply (SIdent ''foo'') (SIdent '' '')) (SIdent '' '')"
  unfolding parse_foo
  by (simp add: parse_foo_reprinted)

text \<open>
  Claim C7 says that \<^verbatim>\<open>parse_binding\<close> accepts \<^verbatim>\<open>let\<close>, an identifier, \<^verbatim>\<open>=\<close> and an
  expression. The code expects the identifier at the position of the \<^verbatim>\<open>let\<close> token
  itself, so on the tokens of \<^verbatim>\<open>let x = y\<close> it returns the diagnostic
  \<^verbatim>\<open>Expected IDENTIFIER but got LET\<close> at the position of \<^verbatim>\<open>let\<close>.
\<close>

theorem parse_binding_let:
  "parse_binding
     [\<lparr>ttype = LET, tvalue = ''let'', tfile = ''<stdin>'', tline = 1, tcol = 1\<rparr>,
      \<lparr>ttype = IDENTIFIER, tvalue = ''x'', tfile = ''<stdin>'', tline = 1, tcol = 5\<rparr>,
      \<lparr>ttype = EQUAL, tvalue = ''='', tfile = ''<stdin>'', tline = 1, tcol = 7\<rparr>,
      \<lparr>ttype = IDENTIFIER, tvalue = ''y'', tfile = ''<stdin>'', tline = 1, tcol = 9\<rparr>] 0 =
   Err \<lparr>message = ''Expected IDENTIFIER but got LET'', efile = ''<stdin>'', eline = 1, ecol = 1\<rparr>"
  by code_simp

text \<open>No token list at all makes \<^verbatim>\<open>parse_binding\<close> succeed.\<close>

lemma parse_binding_never_Ok: "parse_binding tokens pos \<noteq> Ok r"
  by (auto simp: parse_binding_def expect_def split: either.splits if_splits)

text \<open>
  Claim C9, as stated, says that parsing \<^verbatim>\<open>x.\<close> fails with a diagnostic placed after the
  dot whose message names the expected token kind. The code reports the dot itself as
  trailing input: the message is \<^verbatim>\<open>Expected EOF but got DOT\<close>, at line 1, column 2.
\<close>

theorem parse_dangling_dot_stdin:
  "parse ''x.'' ''<stdin>'' =
     Inl (SyntaxError ''Expected EOF but got DOT at line 1 column 2 in <stdin>'')"
  by code_simp

text \<open>
  Claim C9, amended: for every file name, parsing \<^verbatim>\<open>x.\<close> fails with the syntax
  diagnostic \<^verbatim>\<open>Expected EOF but got DOT\<close> at the position of the dot (line 1, column 2).
  The lambda alternative fails with \<^verbatim>\<open>Expected IDENTIFIER but got EOF\<close>, but backtracking
  discards that diagnostic: the expression parser falls back to the identifier \<^verbatim>\<open>x\<close>
  alone and the entry point then rejects the unconsumed dot.
\<close>

theorem parse_dangling_dot:
  "tokenize f ''x.'' =
     Inr [\<lparr>ttype = IDENTIFIER, tvalue = ''x'', tfile = f, tline = 1, tcol = 1\<rparr>,
          \<lparr>ttype = DOT, tvalue = ''.'', tfile = f, tline = 1, tcol = 2\<rparr>] \<and>
   parse_lambda
     [\<lparr>ttype = IDENTIFIER, tvalue = ''x'', tfile = f, tline = 1, tcol = 1\<rparr>,
      \<lparr>ttype = DOT, tvalue = ''.'', tfile = f, tline = 1, tcol = 2\<rparr>] 0 =
     Err \<lparr>message = ''Expected IDENTIFIER but got EOF'', efile = f, eline = 1, ecol = 2\<rparr> \<and>
   parse_expr
     [\<lparr>ttype = IDENTIFIER, tvalue = ''x'', tfile = f, tline = 1, tcol = 1\<rparr>,
      \<lparr>ttype = DOT, tvalue = ''.'', tfile = f, tline = 1, tcol = 2\<rparr>] 0 =
     Ok (Ident \<lparr>afile = f, aline = 1, acol = 1, name = ''x''\<rparr>, 1) \<and>
   parse ''x.'' f = Inl (syntax_error ''Expected EOF but got DOT'' 1 2 f)"
  by code_simp

section \<open>Evaluator properties\<close>

lemmas eval_defs = apply_expr_def ident_eq_def ununique_param_def ununique_name_def

lemma parse_capture_input:
  "parse ''(x.(y.x)) y'' ''<stdin>'' =
     Inr (Apply \<lparr>afile = ''<stdin>'', aline = 1, acol = 1\<rparr>
           (Parentheses \<lparr>afile = ''<stdin>'', aline = 1, acol = 1\<rparr>
             (Lambda \<lparr>afile = ''<stdin>'', aline = 1, acol = 2\<rparr>
               \<lparr>afile = ''<stdin>'', aline = 1, acol = 2, name = ''x''\<rparr>
               (Parentheses \<lparr>afile = ''<stdin>'', aline = 1, acol = 4\<rparr>
                 (Lambda \<lparr>afile = ''<stdin>'', aline = 1, acol = 5\<rparr>
                   \<lparr>afile = ''<stdin>'', aline = 1, acol = 5, name = ''y''\<rparr>
                   (Ident \<lparr>afile = ''<stdin>'', aline = 1, acol = 7, name = ''x''\<rparr>)))))
           (Ident \<lparr>afile = ''<stdin>'', aline = 1, acol = 11, name = ''y''\<rparr>))"
  by code_simp

text \<open>
  Claim C1 says that evaluating \<^verbatim>\<open>(x.(y.x)) y\<close> never produces \<^verbatim>\<open>y.y\<close>. The code
  produces exactly that: \<^verbatim>\<open>unique_ident\<close> renames a parameter only when its name is
  already in \<^verbatim>\<open>known\<close>, which is empty at the one call site, so the inner binder
  \<^verbatim>\<open>y\<close> keeps its name and captures the argument \<^verbatim>\<open>y\<close> (the identifier at column 11)
  that is substituted for \<^verbatim>\<open>x\<close>.
\<close>

theorem eval_captures_free_variable:
  "\<exists>e. parse ''(x.(y.x)) y'' ''<stdin>'' = Inr e \<and>
       eval e = Some (Inr (Lambda \<lparr>afile = ''<stdin>'', aline = 1, acol = 5\<rparr>
                            \<lparr>afile = ''<stdin>'', aline = 1, acol = 5, name = ''y''\<rparr>
                            (Ident \<lparr>afile = ''<stdin>'', aline = 1, acol = 11, name = ''y''\<rparr>)))"
  unfolding parse_capture_input
  by (simp add: eval.simps eval_defs)

lemma parse_identity_applied:
  "parse ''(x.x) a'' ''<stdin>'' =
     Inr (Apply \<lparr>afile = ''<stdin>'', aline = 1, acol = 1\<rparr>
           (Parentheses \<lparr>afile = ''<stdin>'', aline = 1, acol = 1\<rparr>
             (Lambda \<lparr>afile = ''<stdin>'', aline = 1, acol = 2\<rparr>
               \<lparr>afile = ''<stdin>'', aline = 1, acol = 2, name = ''x''\<rparr>
               (Ident \<lparr>afile = ''<stdin>'', aline = 1, acol = 4, name = ''x''\<rparr>)))
           (Ident \<lparr>afile = ''<stdin>'', aline = 1, acol = 7, name = ''a''\<rparr>))"
  by code_simp

lemma parse_const_applied:
  "parse ''(x.y.x) a b'' ''<stdin>'' =
     Inr (Apply \<lparr>afile = ''<stdin>'', aline = 1, acol = 1\<rparr>
           (Apply \<lparr>afile = ''<stdin>'', aline = 1, acol = 1\<rparr>
             (Parentheses \<lparr>afile = ''<stdin>'', aline = 1, acol = 1\<rparr>
               (Lambda \<lparr>afile = ''<stdin>'', aline = 1, acol = 2\<rparr>
                 \<lparr>afile = ''<stdin>'', aline = 1, acol = 2, name = ''x''\<rparr>
                 (Lambda \<lparr>afile = ''<stdin>'', aline = 1, acol = 4\<rparr>
                   \<lparr>afile = ''<stdin>'', aline = 1, acol = 4, name = ''y''\<rparr>
                   (Ident \<lparr>afile = ''<stdin>'', aline = 1, acol = 6, name = ''x''\<rparr>))))
             (Ident \<lparr>afile = ''<stdin>'', aline = 1, acol = 9, name = ''a''\<rparr>))
           (Ident \<lparr>afile = ''<stdin>'', aline = 1, acol = 11, name = ''b''\<rparr>))"
  by code_simp

text \<open>
  Claim C4: evaluating the parse of \<^verbatim>\<open>(x.x) a\<close> returns the identifier \<^verbatim>\<open>a\<close>, and
  evaluating the parse of \<^verbatim>\<open>(x.y.x) a b\<close> returns the identifier \<^verbatim>\<open>a\<close>. In both cases
  it is the argument node itself, with its own source position.
\<close>

theorem beta_reduction_closed_redexes:
  "(\<exists>e. parse ''(x.x) a'' ''<stdin>'' = Inr e \<and>
        eval e = Some (Inr (Ident \<lparr>afile = ''<stdin>'', aline = 1, acol = 7, name = ''a''\<rparr>))) \<and>
   (\<exists>e. parse ''(x.y.x) a b'' ''<stdin>'' = Inr e \<and>
        eval e = Some (Inr (Ident \<lparr>afile = ''<stdin>'', aline = 1, acol = 9, name = ''a''\<rparr>)))"
  unfolding parse_identity_applied parse_const_applied
  by (simp add: eval.simps eval_defs)

end
